theory Spec2Isabelle
  imports Complex_Main
begin

section \<open>Numbers, errors and loops\<close>

text \<open>
  The C++ type \<^verbatim>\<open>double\<close> is modelled by \<^typ>\<open>real\<close> and \<^verbatim>\<open>std::complex<double>\<close> by
  \<^typ>\<open>complex\<close>: rounding, overflow and NaN are outside the model. The C++ type \<^verbatim>\<open>int\<close> is
  modelled by \<^typ>\<open>int\<close>; no property below depends on its width.

  \<^verbatim>\<open>exit(n)\<close> ends the process: it is the result \<open>Inl (Exit n)\<close>. A subscript outside its
  vector and the use of a pointer that was never bound are undefined in C++: the model makes
  them the results \<open>Inl OutOfRange\<close> and \<open>Inl NullPointer\<close>, decided before the body that
  holds the subscripts runs.
\<close>

datatype error = Exit int | OutOfRange | NullPointer

text \<open>\<^verbatim>\<open>for(i=0;i<n;i++){ body }\<close>: the body runs for \<open>i = 0, 1, ..., n-1\<close> in this order,
  and not at all when \<open>n \<le> 0\<close>.\<close>

definition for_loop :: "int \<Rightarrow> (int \<Rightarrow> 's \<Rightarrow> 's) \<Rightarrow> 's \<Rightarrow> 's" where
  "for_loop n body s = fold body (map int [0..<nat n]) s"

section \<open>Energies and forces of a trajectory (libdyn)\<close>

text \<open>The members of \<^verbatim>\<open>Nuclear\<close> and \<^verbatim>\<open>Electronic\<close> that the functions below use.\<close>

record Nuclear =
  nnucl :: int
  q :: "real list"
  p :: "real list"
  f :: "real list"
  mass :: "real list"

record Electronic =
  nstates :: int
  istate :: int
  q :: "real list"
  p :: "real list"

text \<open>The functions reach the Hamiltonian through a pointer to the base class
  \<^verbatim>\<open>Hamiltonian\<close> and call its virtual methods; which object is behind the pointer is not
  theirs to know. The methods are therefore a parameter: a record of functions on the
  state \<open>'h\<close> of the object. \<^verbatim>\<open>set_q\<close> and \<^verbatim>\<open>compute\<close> change the object and may end the
  process; \<^verbatim>\<open>H(i,j)\<close>, \<^verbatim>\<open>dHdq(i,j,k)\<close> and \<^verbatim>\<open>Hvib(i,j)\<close> read it.\<close>

record 'h Hamiltonian =
  set_q :: "real list \<Rightarrow> 'h \<Rightarrow> error + 'h"
  compute :: "'h \<Rightarrow> error + 'h"
  H :: "'h \<Rightarrow> int \<Rightarrow> int \<Rightarrow> complex"
  dHdq :: "'h \<Rightarrow> int \<Rightarrow> int \<Rightarrow> int \<Rightarrow> complex"
  Hvib :: "'h \<Rightarrow> int \<Rightarrow> int \<Rightarrow> complex"

text \<open>The body of the two nested loops of the mean-field energy, for one pair \<open>(i, j)\<close>:
  the two statements \<^verbatim>\<open>Heff += ...\<close>.\<close>

definition Heff_step :: "'h Hamiltonian \<Rightarrow> 'h \<Rightarrow> Electronic \<Rightarrow> int \<Rightarrow> int \<Rightarrow> real \<Rightarrow> real" where
  "Heff_step V ham el i j Heff =
     (let Heff1 = Heff + 0.5 * Re (Hvib V ham i j)
                    * (Electronic.q el ! nat i * Electronic.q el ! nat j
                       + Electronic.p el ! nat i * Electronic.p el ! nat j)
      in Heff1 + Im (Hvib V ham i j) * Electronic.p el ! nat i * Electronic.q el ! nat j)"

text \<open>\<^verbatim>\<open>compute_potential_energy(mol, el, ham, opt)\<close> returns the energy; the object behind
  \<^verbatim>\<open>ham\<close> is returned with it, as the two calls left it.\<close>

definition compute_potential_energy ::
  "'h Hamiltonian \<Rightarrow> Nuclear \<Rightarrow> Electronic \<Rightarrow> 'h \<Rightarrow> int \<Rightarrow> error + (real \<times> 'h)" where
  "compute_potential_energy V mol el ham opt =
     (case set_q V (Nuclear.q mol) ham of
        Inl e \<Rightarrow> Inl e
      | Inr ha \<Rightarrow>
          (case compute V ha of
             Inl e \<Rightarrow> Inl e
           | Inr hb \<Rightarrow>
               (if opt = 0 then
                  (if int (length (Electronic.q el)) < nstates el
                      \<or> int (length (Electronic.p el)) < nstates el
                   then Inl OutOfRange
                   else
                     (let Heff = for_loop (nstates el)
                                   (\<lambda>i. for_loop (nstates el) (Heff_step V hb el i)) 0
                      in Inr (2 * Heff, hb)))
                else if opt = 1 then
                  Inr (Re (H V hb (istate el) (istate el)), hb)
                else Inr (0, hb))))"

text \<open>The body of the innermost loop of the mean-field forces, for one triple \<open>(i, j, k)\<close>:
  the two statements \<^verbatim>\<open>mol->f[k] -= ...\<close>.\<close>

definition force_step ::
  "'h Hamiltonian \<Rightarrow> 'h \<Rightarrow> int \<Rightarrow> int \<Rightarrow> real \<Rightarrow> real \<Rightarrow> int \<Rightarrow> real list \<Rightarrow> real list" where
  "force_step V ham i j cij_re cij_im k fs =
     (let fs1 = fs[nat k := fs ! nat k - 2 * 0.5 * Re (dHdq V ham i j k) * cij_re]
      in fs1[nat k := fs1 ! nat k - 2 * Im (dHdq V ham i j k) * cij_im])"

text \<open>The body of the loop over \<open>j\<close> of the mean-field forces.\<close>

definition pair_step ::
  "'h Hamiltonian \<Rightarrow> 'h \<Rightarrow> Nuclear \<Rightarrow> Electronic \<Rightarrow> int \<Rightarrow> int \<Rightarrow> real list \<Rightarrow> real list" where
  "pair_step V ham mol el i j =
     (let cij_re = Electronic.q el ! nat i * Electronic.q el ! nat j
                   + Electronic.p el ! nat i * Electronic.p el ! nat j;
          cij_im = Electronic.p el ! nat i * Electronic.q el ! nat j
      in for_loop (nnucl mol) (force_step V ham i j cij_re cij_im))"

text \<open>The loop that the source introduces with "Zero all forces in mol":
  \<^verbatim>\<open>for(i=0;i<mol->nnucl;i++){ mol->f[k] = 0.0; }\<close>. It counts with \<^verbatim>\<open>i\<close> and stores at
  \<^verbatim>\<open>k\<close>, and \<^verbatim>\<open>k\<close> has no value yet: \<open>k0\<close> stands for whatever it holds.\<close>

definition zero_forces :: "int \<Rightarrow> int \<Rightarrow> real list \<Rightarrow> real list" where
  "zero_forces n k0 fs = for_loop n (\<lambda>i fs'. fs'[nat k0 := 0]) fs"

text \<open>\<^verbatim>\<open>compute_forces(mol, el, ham, opt)\<close> changes \<^verbatim>\<open>mol->f\<close> and the object behind
  \<^verbatim>\<open>ham\<close>; both are returned. The argument \<open>k0\<close> is the value of the local variable
  \<^verbatim>\<open>k\<close> on entry, which C++ leaves indeterminate.\<close>

definition compute_forces ::
  "'h Hamiltonian \<Rightarrow> int \<Rightarrow> Nuclear \<Rightarrow> Electronic \<Rightarrow> 'h \<Rightarrow> int \<Rightarrow> error + (Nuclear \<times> 'h)" where
  "compute_forces V k0 mol el ham opt =
     (case set_q V (Nuclear.q mol) ham of
        Inl e \<Rightarrow> Inl e
      | Inr ha \<Rightarrow>
          (case compute V ha of
             Inl e \<Rightarrow> Inl e
           | Inr hb \<Rightarrow>
               (if 0 < nnucl mol \<and> (k0 < 0 \<or> int (length (f mol)) \<le> k0) then Inl OutOfRange
                else
                  (let f0 = zero_forces (nnucl mol) k0 (f mol) in
                   if opt = 0 then
                     (if int (length (Electronic.q el)) < nstates el
                         \<or> int (length (Electronic.p el)) < nstates el
                         \<or> (0 < nstates el \<and> int (length f0) < nnucl mol)
                      then Inl OutOfRange
                      else Inr (mol\<lparr>f := for_loop (nstates el)
                                           (\<lambda>i. for_loop (nstates el) (pair_step V hb mol el i)) f0\<rparr>,
                                hb))
                   else if opt = 1 then
                     (if int (length f0) < nnucl mol then Inl OutOfRange
                      else Inr (mol\<lparr>f := for_loop (nnucl mol)
                                           (\<lambda>k fs. fs[nat k := - Re (dHdq V hb (istate el) (istate el) k)])
                                           f0\<rparr>,
                                hb))
                   else Inr (mol\<lparr>f := f0\<rparr>, hb)))))"

section \<open>Matrices, the molecular system and the force-field terms\<close>

text \<open>The class \<^verbatim>\<open>MATRIX\<close> stores its elements row by row in the array \<^verbatim>\<open>M\<close>, so that
  \<^verbatim>\<open>M[0]\<close> is the element (0,0).\<close>

record MATRIX =
  num_of_rows :: int
  num_of_cols :: int
  M :: "real list"

text \<open>\<^verbatim>\<open>new MATRIX(n,m)\<close> followed by \<^verbatim>\<open>*A = 0.0\<close>.\<close>

definition MATRIX_new :: "int \<Rightarrow> int \<Rightarrow> MATRIX" where
  "MATRIX_new n m = \<lparr>num_of_rows = n, num_of_cols = m, M = replicate (nat (n * m)) 0\<rparr>"

text \<open>\<^verbatim>\<open>A->M[0] = a\<close>.\<close>

definition set_M0 :: "real \<Rightarrow> MATRIX \<Rightarrow> MATRIX" where
  "set_M0 a A = A\<lparr>M := (M A)[0 := a]\<rparr>"

text \<open>\<^verbatim>\<open>d[i]->M[0] = a\<close> for a vector \<^verbatim>\<open>d\<close> of pointers to matrices, no two of them to the
  same matrix (the constructor allocates one matrix for each).\<close>

definition set_M0_at :: "int \<Rightarrow> real \<Rightarrow> MATRIX list \<Rightarrow> MATRIX list" where
  "set_M0_at i a d = d[nat i := set_M0 a (d ! nat i)]"

record VECTOR =
  x :: real
  y :: real
  z :: real

record RigidBody =
  rb_force :: VECTOR

record Atom =
  Atom_RB :: RigidBody

record System =
  Number_of_atoms :: int
  Atoms :: "Atom list"

text \<open>An interaction of the force field is known here by its method \<^verbatim>\<open>calculate\<close> alone: it
  reads and writes the atoms of the system through the pointers it holds, and returns its
  energy.\<close>

type_synonym interaction = "System \<Rightarrow> real \<times> System"

record listHamiltonian_MM =
  interactions :: "interaction list"

text \<open>The collaborators whose code is elsewhere: the methods of \<^verbatim>\<open>System\<close>, the constructor
  of \<^verbatim>\<open>listHamiltonian_MM\<close>, the operations of \<^verbatim>\<open>MATRIX\<close> and the eigensolver. They are
  parameters of the model. \<^verbatim>\<open>solve_eigen(n, H, S, E, C)\<close> receives the matrices \<^verbatim>\<open>E\<close> and
  \<^verbatim>\<open>C\<close> as they are before the call and returns what it leaves in them.\<close>

record Externals =
  set_atomic_q :: "real list \<Rightarrow> System \<Rightarrow> System"
  set_atomic_v :: "real list \<Rightarrow> System \<Rightarrow> System"
  zero_forces_and_torques :: "System \<Rightarrow> System"
  new_listHamiltonian_MM :: listHamiltonian_MM
  Init_Unit_Matrix :: "real \<Rightarrow> MATRIX \<Rightarrow> MATRIX"
  MATRIX_T :: "MATRIX \<Rightarrow> MATRIX"
  MATRIX_mult :: "MATRIX \<Rightarrow> MATRIX \<Rightarrow> MATRIX"
  solve_eigen :: "int \<Rightarrow> MATRIX \<Rightarrow> MATRIX \<Rightarrow> MATRIX \<Rightarrow> MATRIX \<Rightarrow> MATRIX \<times> MATRIX"

section \<open>Hamiltonian_Atomistic\<close>

text \<open>The object, with the members it inherits from \<^verbatim>\<open>Hamiltonian\<close>. The pointer \<^verbatim>\<open>_syst\<close>
  is the field \<open>syst\<close>, the system it points to: it is taken to be bound, which is done
  outside the code modelled here. \<^verbatim>\<open>mm_ham\<close> is \<open>None\<close> until it is allocated.\<close>

record Hamiltonian_Atomistic =
  nelec :: int
  nnucl :: int
  ham_dia :: MATRIX
  ham_adi :: MATRIX
  d1ham_dia :: "MATRIX list"
  d1ham_adi :: "MATRIX list"
  d2ham_dia :: "MATRIX list"
  rep :: int
  status_dia :: int
  status_adi :: int
  ham_types :: "int list"
  mm_ham :: "listHamiltonian_MM option"
  q :: "real list"
  v :: "real list"
  syst :: System

text \<open>The constructor \<^verbatim>\<open>Hamiltonian_Atomistic(_nelec, _nnucl)\<close>. It binds neither \<^verbatim>\<open>_syst\<close>
  nor the coordinates: they are given here.\<close>

definition Hamiltonian_Atomistic_new ::
  "int \<Rightarrow> int \<Rightarrow> real list \<Rightarrow> real list \<Rightarrow> System \<Rightarrow> Hamiltonian_Atomistic" where
  "Hamiltonian_Atomistic_new nelec' nnucl' q0 v0 syst0 =
     \<lparr>nelec = nelec', nnucl = nnucl',
      ham_dia = MATRIX_new nelec' nelec', ham_adi = MATRIX_new nelec' nelec',
      d1ham_dia = replicate (nat nnucl') (MATRIX_new nelec' nelec'),
      d1ham_adi = replicate (nat nnucl') (MATRIX_new nelec' nelec'),
      d2ham_dia = replicate (nat (nnucl' * nnucl')) (MATRIX_new nelec' nelec'),
      rep = 0, status_dia = 0, status_adi = 0,
      ham_types = replicate 5 0, mm_ham = None,
      q = q0, v = v0, syst = syst0\<rparr>"

definition set_Hamiltonian_type ::
  "Externals \<Rightarrow> string \<Rightarrow> Hamiltonian_Atomistic \<Rightarrow> error + Hamiltonian_Atomistic" where
  "set_Hamiltonian_type X ham_type h =
     (if ham_type = ''MM'' then
        (let h1 = h\<lparr>rep := 0\<rparr> in
         if ham_types h1 = [] then Inl OutOfRange
         else if ham_types h1 ! 0 = 0 then
           Inr (h1\<lparr>mm_ham := Some (new_listHamiltonian_MM X),
                   ham_types := (ham_types h1)[0 := 1]\<rparr>)
         else Inr h1)
      else Inl (Exit 0))"

definition set_q ::
  "Externals \<Rightarrow> real list \<Rightarrow> Hamiltonian_Atomistic \<Rightarrow> error + Hamiltonian_Atomistic" where
  "set_q X q' h =
     (if int (length q') \<noteq> nnucl h then Inl (Exit 0)
      else Inr (h\<lparr>q := q', status_dia := 0, status_adi := 0,
                  syst := set_atomic_q X q' (syst h)\<rparr>))"

definition set_v ::
  "Externals \<Rightarrow> real list \<Rightarrow> Hamiltonian_Atomistic \<Rightarrow> error + Hamiltonian_Atomistic" where
  "set_v X v' h =
     (if int (length v') \<noteq> nnucl h then Inl (Exit 0)
      else Inr (h\<lparr>v := v', status_adi := 0,
                  syst := set_atomic_v X v' (syst h)\<rparr>))"

text \<open>The loop \<^verbatim>\<open>for(int i=0;i<sz;i++){ res += mm_ham->interactions[i].calculate(tmp); }\<close>
  with \<^verbatim>\<open>sz = mm_ham->interactions.size()\<close>, started at \<^verbatim>\<open>res = 0.0\<close>. Each call sees the
  system as the calls before it left it.\<close>

definition calculate_all :: "interaction list \<Rightarrow> System \<Rightarrow> real \<times> System" where
  "calculate_all cs s =
     for_loop (int (length cs))
       (\<lambda>i (res, s'). let (e, s'') = (cs ! nat i) s' in (res + e, s''))
       (0, s)"

text \<open>The body of the loop over the atoms, on the pair of \<^verbatim>\<open>d1ham_dia\<close> and
  \<^verbatim>\<open>d1ham_adi\<close>.\<close>

definition take_forces ::
  "System \<Rightarrow> int \<Rightarrow> MATRIX list \<times> MATRIX list \<Rightarrow> MATRIX list \<times> MATRIX list" where
  "take_forces s i = (\<lambda>(dia, adi).
     (let fo = rb_force (Atom_RB (Atoms s ! nat i)) in
      (set_M0_at (3 * i + 2) (- z fo) (set_M0_at (3 * i + 1) (- y fo) (set_M0_at (3 * i) (- x fo) dia)),
       set_M0_at (3 * i + 2) (- z fo) (set_M0_at (3 * i + 1) (- y fo) (set_M0_at (3 * i) (- x fo) adi)))))"

text \<open>The subscripts \<^verbatim>\<open>d[i]->M[0]\<close> for \<open>0 \<le> i < n\<close> are all in range.\<close>

definition M0_in_range :: "MATRIX list \<Rightarrow> int \<Rightarrow> bool" where
  "M0_in_range d n = (n \<le> int (length d) \<and> list_all (\<lambda>A. M A \<noteq> []) (take (nat n) d))"

definition compute_diabatic ::
  "Externals \<Rightarrow> Hamiltonian_Atomistic \<Rightarrow> error + Hamiltonian_Atomistic" where
  "compute_diabatic X h =
     (if status_dia h = 0 then
        (if ham_types h = [] then Inl OutOfRange
         else if ham_types h ! 0 = 1 then
           (case mm_ham h of
              None \<Rightarrow> Inl NullPointer
            | Some mm \<Rightarrow>
                (let (res, s) = calculate_all (interactions mm) (zero_forces_and_torques X (syst h)) in
                 if M (ham_dia h) = [] \<or> M (ham_adi h) = []
                    \<or> int (length (Atoms s)) < Number_of_atoms s
                    \<or> \<not> M0_in_range (d1ham_dia h) (3 * Number_of_atoms s)
                    \<or> \<not> M0_in_range (d1ham_adi h) (3 * Number_of_atoms s)
                    \<or> \<not> M0_in_range (d2ham_dia h) (nnucl h * nnucl h)
                 then Inl OutOfRange
                 else
                   (let (dia, adi) =
                          for_loop (Number_of_atoms s) (take_forces s) (d1ham_dia h, d1ham_adi h)
                    in Inr (h\<lparr>syst := s,
                               ham_dia := set_M0 res (ham_dia h),
                               ham_adi := set_M0 res (ham_adi h),
                               d1ham_dia := dia,
                               d1ham_adi := adi,
                               d2ham_dia := for_loop (nnucl h * nnucl h) (\<lambda>i. set_M0_at i 0) (d2ham_dia h),
                               status_dia := 1\<rparr>))))
         else Inr (h\<lparr>status_dia := 1\<rparr>))
      else Inr h)"

text \<open>The call \<^verbatim>\<open>solve_eigen(nelec, ham_dia, S, ham_adi, C)\<close> of \<^verbatim>\<open>compute_adiabatic\<close>, for an
  object whose diabatic result is up to date. Before the call \<^verbatim>\<open>S\<close> is a new matrix after
  \<^verbatim>\<open>Init_Unit_Matrix(1.0)\<close>, which sets every element of it, and \<^verbatim>\<open>C\<close> is a new matrix set
  to zero. The call is taken to leave \<^verbatim>\<open>ham_dia\<close> and \<^verbatim>\<open>S\<close> as they are, as its comment
  \<^verbatim>\<open>H_dia * C = S * C * H_adi\<close> says of a solver.\<close>

definition unit_S :: "Externals \<Rightarrow> Hamiltonian_Atomistic \<Rightarrow> MATRIX" where
  "unit_S X h = Init_Unit_Matrix X 1 (MATRIX_new (nelec h) (nelec h))"

definition eigen :: "Externals \<Rightarrow> Hamiltonian_Atomistic \<Rightarrow> MATRIX \<times> MATRIX" where
  "eigen X h =
     solve_eigen X (nelec h) (ham_dia h) (unit_S X h) (ham_adi h) (MATRIX_new (nelec h) (nelec h))"

text \<open>\<^verbatim>\<open>*d1ham_adi[n] = (*C).T() * (*d1ham_dia[n]) * (*C)\<close>.\<close>

definition to_adiabatic :: "Externals \<Rightarrow> MATRIX \<Rightarrow> MATRIX list \<Rightarrow> int \<Rightarrow> MATRIX list \<Rightarrow> MATRIX list" where
  "to_adiabatic X C dia n adi =
     adi[nat n := MATRIX_mult X (MATRIX_mult X (MATRIX_T X C) (dia ! nat n)) C]"

definition compute_adiabatic ::
  "Externals \<Rightarrow> Hamiltonian_Atomistic \<Rightarrow> error + Hamiltonian_Atomistic" where
  "compute_adiabatic X h =
     (case compute_diabatic X h of
        Inl e \<Rightarrow> Inl e
      | Inr h1 \<Rightarrow>
          (if status_adi h1 = 0 then
             (let (E, C) = eigen X h1 in
              if int (length (d1ham_dia h1)) < nnucl h1 \<or> int (length (d1ham_adi h1)) < nnucl h1
              then Inl OutOfRange
              else Inr (h1\<lparr>ham_adi := E,
                           d1ham_adi := for_loop (nnucl h1) (to_adiabatic X C (d1ham_dia h1)) (d1ham_adi h1),
                           status_adi := 1\<rparr>))
           else Inr h1))"

section \<open>Concrete objects\<close>

text \<open>A Hamiltonian object to run the functions of libdyn on: two electronic states over
  \<open>n\<close> nuclear coordinates. Its state is the coordinate vector it was last given. The
  energies of the two states are \<open>q\<^sub>0\<close> and \<open>2 q\<^sub>0\<close>, and the vibronic Hamiltonian couples them
  by \<open>- i\<close> and \<open>i\<close>.\<close>

definition two_state :: "int \<Rightarrow> real list Hamiltonian" where
  "two_state n =
     \<lparr>Hamiltonian.set_q = (\<lambda>q' h. if int (length q') \<noteq> n then Inl (Exit 0) else Inr q'),
      compute = (\<lambda>h. Inr h),
      H = (\<lambda>h i j. if i = j then Complex (of_int (i + 1) * h ! 0) 0 else 0),
      dHdq = (\<lambda>h i j k. if i = j \<and> k = 0 then Complex (of_int (i + 1)) 0 else 0),
      Hvib = (\<lambda>h i j. if i = j then Complex (of_int (i + 1) * h ! 0) 0
                       else if i < j then Complex 0 (- 1) else Complex 0 1)\<rparr>"

definition el2 :: Electronic where
  "el2 = \<lparr>nstates = 2, istate = 1, Electronic.q = [1, 0], Electronic.p = [0, 1]\<rparr>"

definition mol1 :: Nuclear where
  "mol1 = \<lparr>Nuclear.nnucl = 1, Nuclear.q = [2], Nuclear.p = [0], f = [7], mass = [1]\<rparr>"

definition mol2 :: Nuclear where
  "mol2 = \<lparr>Nuclear.nnucl = 2, Nuclear.q = [2, 0], Nuclear.p = [0, 0], f = [7, 7], mass = [1, 1]\<rparr>"

text \<open>Collaborators for a Hamiltonian_Atomistic with one electronic state, where every
  matrix is 1 by 1: the transpose of a matrix is the matrix, the product multiplies the
  single elements, and the eigenvector of norm one is 1.\<close>

definition X1 :: Externals where
  "X1 =
     \<lparr>set_atomic_q = (\<lambda>q' s. s),
      set_atomic_v = (\<lambda>v' s. s),
      zero_forces_and_torques =
        (\<lambda>s. s\<lparr>Atoms := map (\<lambda>a. a\<lparr>Atom_RB := \<lparr>rb_force = \<lparr>x = 0, y = 0, z = 0\<rparr>\<rparr>\<rparr>) (Atoms s)\<rparr>),
      new_listHamiltonian_MM = \<lparr>interactions = []\<rparr>,
      Init_Unit_Matrix = (\<lambda>a A. A\<lparr>M := [a]\<rparr>),
      MATRIX_T = (\<lambda>A. A),
      MATRIX_mult = (\<lambda>A B. A\<lparr>M := [M A ! 0 * M B ! 0]\<rparr>),
      solve_eigen = (\<lambda>n A S E C. (A, C\<lparr>M := [1]\<rparr>))\<rparr>"

text \<open>A system of one atom, and an interaction that pulls it with the force \<open>(1, 2, 3)\<close>
  at the energy 5.\<close>

definition syst1 :: System where
  "syst1 = \<lparr>Number_of_atoms = 1,
            Atoms = [\<lparr>Atom_RB = \<lparr>rb_force = \<lparr>x = 9, y = 9, z = 9\<rparr>\<rparr>\<rparr>]\<rparr>"

definition pull :: interaction where
  "pull s = (5, s\<lparr>Atoms := (Atoms s)[0 := \<lparr>Atom_RB = \<lparr>rb_force = \<lparr>x = 1, y = 2, z = 3\<rparr>\<rparr>\<rparr>]\<rparr>)"

text \<open>The object as the constructor leaves it for one electronic state and three nuclear
  coordinates, and the same object after the selector "MM" and one interaction.\<close>

definition atomistic :: Hamiltonian_Atomistic where
  "atomistic = Hamiltonian_Atomistic_new 1 3 [0, 0, 0] [0, 0, 0] syst1"

definition atomistic_MM :: Hamiltonian_Atomistic where
  "atomistic_MM = atomistic\<lparr>ham_types := [1, 0, 0, 0, 0], mm_ham := Some \<lparr>interactions = [pull]\<rparr>\<rparr>"

text \<open>The same object once its diabatic result is up to date.\<close>

definition atomistic_dia :: Hamiltonian_Atomistic where
  "atomistic_dia = atomistic_MM
     \<lparr>syst := \<lparr>Number_of_atoms = 1,
               Atoms = [\<lparr>Atom_RB = \<lparr>rb_force = \<lparr>x = 1, y = 2, z = 3\<rparr>\<rparr>\<rparr>]\<rparr>,
      ham_dia := \<lparr>num_of_rows = 1, num_of_cols = 1, M = [5]\<rparr>,
      ham_adi := \<lparr>num_of_rows = 1, num_of_cols = 1, M = [5]\<rparr>,
      d1ham_dia := [\<lparr>num_of_rows = 1, num_of_cols = 1, M = [- 1]\<rparr>,
                    \<lparr>num_of_rows = 1, num_of_cols = 1, M = [- 2]\<rparr>,
                    \<lparr>num_of_rows = 1, num_of_cols = 1, M = [- 3]\<rparr>],
      d1ham_adi := [\<lparr>num_of_rows = 1, num_of_cols = 1, M = [- 1]\<rparr>,
                    \<lparr>num_of_rows = 1, num_of_cols = 1, M = [- 2]\<rparr>,
                    \<lparr>num_of_rows = 1, num_of_cols = 1, M = [- 3]\<rparr>],
      status_dia := 1\<rparr>"




section \<open>Predicates of the proofs\<close>

text \<open>The subscript \<^verbatim>\<open>d[j]->M[0]\<close> is in range.\<close>

definition M0_ok :: "MATRIX list \<Rightarrow> nat \<Rightarrow> bool" where
  "M0_ok d j \<longleftrightarrow> j < length d \<and> M (d ! j) \<noteq> []"


section \<open>Loops\<close>

text \<open>The rule for a loop invariant \<open>P\<close>, indexed by the number of iterations done.\<close>

lemma for_loop_induct:
  assumes "P 0 s" and "\<And>i s'. i < nat n \<Longrightarrow> P i s' \<Longrightarrow> P (Suc i) (body (int i) s')"
  shows "P (nat n) (for_loop n body s)"
proof -
  have "m \<le> nat n \<Longrightarrow> P m (fold body (map int [0..<m]) s)" for m
  proof (induction m)
    case 0
    then show ?case using assms(1) by simp
  next
    case (Suc m)
    then show ?case using assms(2) [of m] by simp
  qed
  then show ?thesis by (simp add: for_loop_def)
qed

text \<open>A loop that adds a term to an accumulator computes a sum.\<close>

lemma for_loop_sum:
  "for_loop n (\<lambda>i a. a + g i) (a0::real) = a0 + (\<Sum>i\<in>{0..<n}. g i)"
proof -
  have "for_loop n (\<lambda>i a. a + g i) a0 = a0 + (\<Sum>i<nat n. g (int i))"
    using for_loop_induct [where P = "\<lambda>m a. a = a0 + (\<Sum>i<m. g (int i))" and s = a0 and n = n
        and body = "\<lambda>i a. a + g i"]
    by simp
  moreover have "(\<Sum>i<nat n. g (int i)) = (\<Sum>i\<in>{0..<n}. g i)"
    by (rule sum.reindex_bij_witness [where i = nat and j = int]) auto
  ultimately show ?thesis by simp
qed

text \<open>A loop that stores \<open>g k\<close> at every index \<open>k\<close> leaves \<open>g k\<close> there.\<close>

lemma for_loop_assign:
  assumes "n \<le> int (length fs)"
  shows "length (for_loop n (\<lambda>k fs'. fs'[nat k := g k]) fs) = length fs
     \<and> (\<forall>k<nat n. for_loop n (\<lambda>k fs'. fs'[nat k := g k]) fs ! k = g (int k))"
proof -
  let ?P = "\<lambda>m fs'. length fs' = length fs \<and> (\<forall>k<m. fs' ! k = g (int k))"
  have "?P (nat n) (for_loop n (\<lambda>k fs'. fs'[nat k := g k]) fs)"
  proof (rule for_loop_induct)
    show "?P 0 fs" by simp
  next
    fix i fs'
    assume i: "i < nat n" and P: "?P i fs'"
    from i assms have "i < length fs'" using P by linarith
    with P show "?P (Suc i) (fs'[nat (int i) := g (int i)])"
      by (auto simp: nth_list_update less_Suc_eq)
  qed
  then show ?thesis by simp
qed

lemma upt2: "[0..<2] = [0, 1]"
  by (simp add: upt_conv_Cons)

lemma int_range2: "{0..<2::int} = {0, 1}"
  by auto

section \<open>Potential energy\<close>

lemma Heff_step_add:
  "Heff_step V ham el i j a =
     a + (0.5 * Re (Hvib V ham i j)
            * (Electronic.q el ! nat i * Electronic.q el ! nat j
               + Electronic.p el ! nat i * Electronic.p el ! nat j)
          + Im (Hvib V ham i j) * Electronic.p el ! nat i * Electronic.q el ! nat j)"
  by (simp add: Heff_step_def Let_def)

lemma Heff_loops:
  "for_loop n (\<lambda>i. for_loop n (Heff_step V ham el i)) 0 =
     (\<Sum>i\<in>{0..<n}. \<Sum>j\<in>{0..<n}.
        0.5 * Re (Hvib V ham i j)
          * (Electronic.q el ! nat i * Electronic.q el ! nat j
             + Electronic.p el ! nat i * Electronic.p el ! nat j)
        + Im (Hvib V ham i j) * Electronic.p el ! nat i * Electronic.q el ! nat j)"
proof -
  let ?g = "\<lambda>i j. 0.5 * Re (Hvib V ham i j)
          * (Electronic.q el ! nat i * Electronic.q el ! nat j
             + Electronic.p el ! nat i * Electronic.p el ! nat j)
        + Im (Hvib V ham i j) * Electronic.p el ! nat i * Electronic.q el ! nat j"
  have inner: "for_loop n (Heff_step V ham el i) = (\<lambda>a. a + (\<Sum>j\<in>{0..<n}. ?g i j))" for i
  proof
    fix a
    have "Heff_step V ham el i = (\<lambda>j a. a + ?g i j)"
      by (intro ext) (rule Heff_step_add)
    then show "for_loop n (Heff_step V ham el i) a = a + (\<Sum>j\<in>{0..<n}. ?g i j)"
      by (simp only: for_loop_sum)
  qed
  show ?thesis
    by (simp add: inner for_loop_sum)
qed

text \<open>
  C2. In mean-field mode (\<open>opt = 0\<close>), when \<open>set_q\<close> and \<open>compute\<close> succeed and the vectors
  \<open>q\<close> and \<open>p\<close> of the electronic object hold at least \<open>nstates\<close> elements,
  \<open>compute_potential_energy\<close> returns
  \<open>2 * \<Sum>\<^sub>i\<^sub>,\<^sub>j [0.5 * Re(Hvib(i,j)) * (q\<^sub>i q\<^sub>j + p\<^sub>i p\<^sub>j) + Im(Hvib(i,j)) * p\<^sub>i q\<^sub>j]\<close>, the sum over all
  pairs of states \<open>0 \<le> i, j < nstates\<close>, with \<open>Hvib\<close> read from the Hamiltonian at the
  coordinates of \<open>mol\<close>.
\<close>

theorem compute_potential_energy_mean_field:
  assumes "Hamiltonian.set_q V (Nuclear.q mol) ham = Inr ha"
    and "compute V ha = Inr hb"
    and "nstates el \<le> int (length (Electronic.q el))"
    and "nstates el \<le> int (length (Electronic.p el))"
  shows "compute_potential_energy V mol el ham 0 =
     Inr (2 * (\<Sum>i\<in>{0..<nstates el}. \<Sum>j\<in>{0..<nstates el}.
                 0.5 * Re (Hvib V hb i j)
                   * (Electronic.q el ! nat i * Electronic.q el ! nat j
                      + Electronic.p el ! nat i * Electronic.p el ! nat j)
                 + Im (Hvib V hb i j) * Electronic.p el ! nat i * Electronic.q el ! nat j),
          hb)"
  using assms by (simp add: compute_potential_energy_def Heff_loops)

theorem compute_potential_energy_mean_field_witness:
  "Hamiltonian.set_q (two_state 1) (Nuclear.q mol1) [0] = Inr [2]
   \<and> compute (two_state 1) [2] = Inr [2]
   \<and> nstates el2 \<le> int (length (Electronic.q el2))
   \<and> nstates el2 \<le> int (length (Electronic.p el2))
   \<and> compute_potential_energy (two_state 1) mol1 el2 [0] 0 = Inr (8, [2])"
  using compute_potential_energy_mean_field
    [where V = "two_state 1" and mol = mol1 and ham = "[0]" and ha = "[2]" and hb = "[2]" and el = el2]
  by (simp add: two_state_def mol1_def el2_def int_range2)

text \<open>
  C6. In single-surface mode (\<open>opt = 1\<close>), when \<open>set_q\<close> and \<open>compute\<close> succeed,
  \<open>compute_potential_energy\<close> returns \<open>Re(H(istate, istate))\<close>, the real part of the
  diagonal element of the Hamiltonian for the active state, read at the coordinates of
  \<open>mol\<close>.
\<close>

theorem compute_potential_energy_fssh:
  assumes "Hamiltonian.set_q V (Nuclear.q mol) ham = Inr ha"
    and "compute V ha = Inr hb"
  shows "compute_potential_energy V mol el ham 1 =
     Inr (Re (H V hb (istate el) (istate el)), hb)"
  using assms by (simp add: compute_potential_energy_def)

theorem compute_potential_energy_fssh_witness:
  "Hamiltonian.set_q (two_state 1) (Nuclear.q mol1) [0] = Inr [2]
   \<and> compute (two_state 1) [2] = Inr [2]
   \<and> compute_potential_energy (two_state 1) mol1 el2 [0] 1 = Inr (4, [2])"
  using compute_potential_energy_fssh
    [where V = "two_state 1" and mol = mol1 and ham = "[0]" and ha = "[2]" and hb = "[2]" and el = el2]
  by (simp add: two_state_def mol1_def el2_def)

section \<open>Forces\<close>

text \<open>In single-surface mode (\<open>opt = 1\<close>), a call of \<open>compute_forces\<close> that returns has
  set \<open>f[k] = - Re(dHdq(istate, istate, k))\<close> for every nuclear degree of freedom \<open>k\<close>, and
  gives the same result for every electronic object with the same active state, whatever
  its amplitudes.\<close>

lemma compute_forces_fssh_returning:
  assumes "compute_forces V k0 mol el ham 1 = Inr (mol', hb)"
  shows "(\<forall>k. 0 \<le> k \<and> k < Nuclear.nnucl mol \<longrightarrow>
            f mol' ! nat k = - Re (dHdq V hb (istate el) (istate el) k))
       \<and> (\<forall>el'. istate el' = istate el \<longrightarrow>
            compute_forces V k0 mol el' ham 1 = Inr (mol', hb))"
proof -
  let ?g = "\<lambda>k. - Re (dHdq V hb (istate el) (istate el) k)"
  let ?f0 = "zero_forces (Nuclear.nnucl mol) k0 (f mol)"
  from assms have len: "Nuclear.nnucl mol \<le> int (length ?f0)"
    and res: "f mol' = for_loop (Nuclear.nnucl mol) (\<lambda>k fs'. fs'[nat k := ?g k]) ?f0"
    by (auto simp: compute_forces_def Let_def split: sum.splits if_splits)
  have "f mol' ! nat k = ?g k" if "0 \<le> k" "k < Nuclear.nnucl mol" for k
  proof -
    from that have "nat k < nat (Nuclear.nnucl mol)" by simp
    with for_loop_assign [OF len, of ?g] have "f mol' ! nat k = ?g (int (nat k))"
      unfolding res by blast
    with that show ?thesis by simp
  qed
  moreover have "compute_forces V k0 mol el' ham 1 = Inr (mol', hb)"
    if "istate el' = istate el" for el'
  proof -
    from that have "compute_forces V k0 mol el' ham 1 = compute_forces V k0 mol el ham 1"
      by (auto simp: compute_forces_def Let_def split: sum.splits)
    with assms show ?thesis by simp
  qed
  ultimately show ?thesis by blast
qed

text \<open>The loop that should clear the forces clears one element at most, the one at the
  index \<open>k0\<close>.\<close>

lemma zero_forces_eq: "zero_forces n k0 fs = (if 0 < n then fs[nat k0 := 0] else fs)"
proof -
  have "for_loop n (\<lambda>i fs'. fs'[nat k0 := 0]) fs = (if 0 < nat n then fs[nat k0 := 0] else fs)"
    by (rule for_loop_induct [where P = "\<lambda>m fs'. fs' = (if 0 < m then fs[nat k0 := 0] else fs)"])
      simp_all
  then show ?thesis by (simp add: zero_forces_def)
qed

text \<open>In single-surface mode the call returns when \<open>set_q\<close> and \<open>compute\<close> do, \<open>f\<close>
  holds \<open>nnucl\<close> elements and the stray store is within \<open>f\<close>.\<close>

lemma compute_forces_fssh_returns:
  assumes "Hamiltonian.set_q V (Nuclear.q mol) ham = Inr ha" and "compute V ha = Inr hb"
    and "Nuclear.nnucl mol \<le> int (length (f mol))"
    and "Nuclear.nnucl mol \<le> 0 \<or> (0 \<le> k0 \<and> k0 < int (length (f mol)))"
  shows "\<exists>mol'. compute_forces V k0 mol el ham 1 = Inr (mol', hb)"
  using assms by (auto simp: compute_forces_def Let_def zero_forces_eq)

text \<open>
  C7. In single-surface mode (\<open>opt = 1\<close>), \<open>compute_forces\<close> should set
  \<open>f[k] = - Re(dHdq(istate, istate, k))\<close> for every nuclear degree of freedom \<open>k\<close>. Before
  it does, it runs the loop that stores at \<open>f[k]\<close> with \<open>k\<close> uninitialised: for two
  nuclear coordinates and the active state 1, whose gradient is \<open>[2, 0]\<close>, the call leaves
  the forces \<open>[- 2, 0]\<close> only when the uninitialised index holds 0 or 1, and the store is
  out of range for every other value.
\<close>

theorem compute_forces_fssh_stray_store:
  "\<forall>k0. compute_forces (two_state 2) k0 mol2 el2 [0, 0] 1 =
     (if 0 \<le> k0 \<and> k0 < 2 then Inr (mol2\<lparr>f := [- 2, 0]\<rparr>, [2, 0]) else Inl OutOfRange)"
proof
  fix k0 :: int
  consider "k0 = 0" | "k0 = 1" | "k0 < 0 \<or> 2 \<le> k0" by linarith
  then show "compute_forces (two_state 2) k0 mol2 el2 [0, 0] 1 =
     (if 0 \<le> k0 \<and> k0 < 2 then Inr (mol2\<lparr>f := [- 2, 0]\<rparr>, [2, 0]) else Inl OutOfRange)"
  proof cases
    case 1
    then show ?thesis
      by (simp add: compute_forces_def two_state_def mol2_def el2_def zero_forces_def
          for_loop_def upt2)
  next
    case 2
    then show ?thesis
      by (simp add: compute_forces_def two_state_def mol2_def el2_def zero_forces_def
          for_loop_def upt2)
  next
    case 3
    then show ?thesis
      by (auto simp add: compute_forces_def two_state_def mol2_def)
  qed
qed

text \<open>A loop over \<open>k\<close> that subtracts \<open>t k\<close> from the element \<open>k\<close>.\<close>

lemma for_loop_subtract:
  fixes fs :: "real list"
  assumes "n \<le> int (length fs)"
    and "\<And>k fs'. body k fs' = fs'[nat k := fs' ! nat k - t k]"
  shows "length (for_loop n body fs) = length fs
     \<and> (\<forall>k<nat n. for_loop n body fs ! k = fs ! k - t (int k))"
proof -
  let ?P = "\<lambda>m fs'. length fs' = length fs \<and> (\<forall>k<m. fs' ! k = fs ! k - t (int k))
      \<and> (\<forall>k. m \<le> k \<longrightarrow> fs' ! k = fs ! k)"
  have "?P (nat n) (for_loop n body fs)"
  proof (rule for_loop_induct)
    show "?P 0 fs" by simp
  next
    fix i fs'
    assume i: "i < nat n" and P: "?P i fs'"
    from i assms(1) P have "i < length fs'" by linarith
    with P show "?P (Suc i) (body (int i) fs')"
      by (auto simp: assms(2) nth_list_update less_Suc_eq)
  qed
  then show ?thesis by simp
qed

lemma force_step_eq:
  "force_step V ham i j cre cim k fs
     = fs[nat k := fs ! nat k - (2 * 0.5 * Re (dHdq V ham i j k) * cre + 2 * Im (dHdq V ham i j k) * cim)]"
proof (cases "nat k < length fs")
  case True
  then show ?thesis
    by (simp add: force_step_def Let_def diff_diff_eq)
next
  case False
  then show ?thesis
    by (simp add: force_step_def Let_def list_update_beyond)
qed

lemma pair_step_subtract:
  assumes "Nuclear.nnucl mol \<le> int (length fs)"
  shows "length (pair_step V ham mol el i j fs) = length fs
     \<and> (\<forall>k<nat (Nuclear.nnucl mol). pair_step V ham mol el i j fs ! k = fs ! k
          - (2 * 0.5 * Re (dHdq V ham i j (int k))
               * (Electronic.q el ! nat i * Electronic.q el ! nat j
                  + Electronic.p el ! nat i * Electronic.p el ! nat j)
             + 2 * Im (dHdq V ham i j (int k)) * (Electronic.p el ! nat i * Electronic.q el ! nat j)))"
  unfolding pair_step_def Let_def
  by (rule for_loop_subtract [OF assms]) (rule force_step_eq)

lemma mean_field_loops:
  assumes "Nuclear.nnucl mol \<le> int (length fs)"
  shows "\<forall>k<nat (Nuclear.nnucl mol).
     for_loop ns (\<lambda>i. for_loop ns (pair_step V ham mol el i)) fs ! k = fs ! k
       - (\<Sum>i\<in>{0..<ns}. \<Sum>j\<in>{0..<ns}.
            2 * 0.5 * Re (dHdq V ham i j (int k))
               * (Electronic.q el ! nat i * Electronic.q el ! nat j
                  + Electronic.p el ! nat i * Electronic.p el ! nat j)
             + 2 * Im (dHdq V ham i j (int k)) * (Electronic.p el ! nat i * Electronic.q el ! nat j))"
proof -
  let ?t = "\<lambda>i j k. 2 * 0.5 * Re (dHdq V ham i j (int k))
               * (Electronic.q el ! nat i * Electronic.q el ! nat j
                  + Electronic.p el ! nat i * Electronic.p el ! nat j)
             + 2 * Im (dHdq V ham i j (int k)) * (Electronic.p el ! nat i * Electronic.q el ! nat j)"
  let ?n = "nat (Nuclear.nnucl mol)"
  have step: "length (pair_step V ham mol el i j fs') = length fs'
      \<and> (\<forall>k<?n. pair_step V ham mol el i j fs' ! k = fs' ! k - ?t i j k)"
    if "length fs' = length fs" for i j fs'
    using pair_step_subtract [of mol fs' V ham el i j] assms that by simp
  have inner: "length (for_loop ns (pair_step V ham mol el i) fs') = length fs'
      \<and> (\<forall>k<?n. for_loop ns (pair_step V ham mol el i) fs' ! k = fs' ! k - (\<Sum>j\<in>{0..<ns}. ?t i j k))"
    if len: "length fs' = length fs" for i fs'
  proof -
    let ?P = "\<lambda>c fs''. length fs'' = length fs'
      \<and> (\<forall>k<?n. fs'' ! k = fs' ! k - (\<Sum>j<c. ?t i (int j) k))"
    have "?P (nat ns) (for_loop ns (pair_step V ham mol el i) fs')"
    proof (rule for_loop_induct)
      show "?P 0 fs'" by simp
    next
      fix c fs''
      assume "c < nat ns" and P: "?P c fs''"
      with step [of fs'' i "int c"] len show "?P (Suc c) (pair_step V ham mol el i (int c) fs'')"
        by simp
    qed
    moreover have "(\<Sum>j<nat ns. ?t i (int j) k) = (\<Sum>j\<in>{0..<ns}. ?t i j k)" for k
      by (rule sum.reindex_bij_witness [where i = nat and j = int]) auto
    ultimately show ?thesis by simp
  qed
  let ?Q = "\<lambda>c fs'. length fs' = length fs
      \<and> (\<forall>k<?n. fs' ! k = fs ! k - (\<Sum>i<c. \<Sum>j\<in>{0..<ns}. ?t (int i) j k))"
  have "?Q (nat ns) (for_loop ns (\<lambda>i. for_loop ns (pair_step V ham mol el i)) fs)"
  proof (rule for_loop_induct)
    show "?Q 0 fs" by simp
  next
    fix c fs'
    assume "c < nat ns" and Q: "?Q c fs'"
    with inner [of fs' "int c"] show "?Q (Suc c) (for_loop ns (pair_step V ham mol el (int c)) fs')"
      by simp
  qed
  moreover have "(\<Sum>i<nat ns. \<Sum>j\<in>{0..<ns}. ?t (int i) j k) = (\<Sum>i\<in>{0..<ns}. \<Sum>j\<in>{0..<ns}. ?t i j k)" for k
    by (rule sum.reindex_bij_witness [where i = nat and j = int]) auto
  ultimately show ?thesis by simp
qed

text \<open>In mean-field mode the three nested loops subtract from \<open>f[k]\<close> the sum over all pairs
  of states of \<open>2 * 0.5 * Re(dHdq(i,j,k)) * (q\<^sub>i q\<^sub>j + p\<^sub>i p\<^sub>j) + 2 * Im(dHdq(i,j,k)) * p\<^sub>i q\<^sub>j\<close>.
  They start from the forces that \<open>mol\<close> came with, but for the one at \<open>k0\<close>.\<close>

lemma compute_forces_mean_field_accumulates:
  assumes run: "compute_forces V k0 mol el ham 0 = Inr (mol', hb)"
    and len: "Nuclear.nnucl mol \<le> int (length (f mol))"
    and k: "0 \<le> k" "k < Nuclear.nnucl mol"
  shows "f mol' ! nat k = (if k = k0 then 0 else f mol ! nat k)
       - (\<Sum>i\<in>{0..<nstates el}. \<Sum>j\<in>{0..<nstates el}.
            2 * 0.5 * Re (dHdq V hb i j k)
               * (Electronic.q el ! nat i * Electronic.q el ! nat j
                  + Electronic.p el ! nat i * Electronic.p el ! nat j)
             + 2 * Im (dHdq V hb i j k) * (Electronic.p el ! nat i * Electronic.q el ! nat j))"
proof -
  let ?f0 = "zero_forces (Nuclear.nnucl mol) k0 (f mol)"
  from run k have k0: "0 \<le> k0" "k0 < int (length (f mol))"
    and res: "f mol' = for_loop (nstates el) (\<lambda>i. for_loop (nstates el) (pair_step V hb mol el i)) ?f0"
    by (auto simp: compute_forces_def Let_def split: sum.splits if_splits)
  from len have len0: "Nuclear.nnucl mol \<le> int (length ?f0)"
    by (simp add: zero_forces_eq)
  from k have kn: "nat k < nat (Nuclear.nnucl mol)" by simp
  from k k0 len have "?f0 ! nat k = (if k = k0 then 0 else f mol ! nat k)"
    by (auto simp: zero_forces_eq nth_list_update)
  with mean_field_loops [OF len0, of "nstates el" V hb el] kn k show ?thesis
    unfolding res by simp
qed

text \<open>
  C1. In mean-field mode (\<open>opt = 0\<close>), \<open>compute_forces\<close> should leave in \<open>f[k]\<close> minus the
  gradient of the mean-field energy, accumulated from zeroed forces. It does not: for two
  nuclear coordinates, forces \<open>[7, 7]\<close> on entry and a gradient of \<open>[3, 0]\<close>, the forces
  on return are not \<open>[- 3, 0]\<close>, whatever the uninitialised index holds: they are
  \<open>[- 3, 7]\<close> when it holds 0, \<open>[4, 0]\<close> when it holds 1, and the store is out of range
  otherwise.
\<close>

theorem compute_forces_mean_field_not_zeroed:
  "\<forall>k0. compute_forces (two_state 2) k0 mol2 el2 [0, 0] 0 =
     (if k0 = 0 then Inr (mol2\<lparr>f := [- 3, 7]\<rparr>, [2, 0])
      else if k0 = 1 then Inr (mol2\<lparr>f := [4, 0]\<rparr>, [2, 0])
      else Inl OutOfRange)"
proof
  fix k0 :: int
  consider "k0 = 0" | "k0 = 1" | "k0 < 0 \<or> 2 \<le> k0" by linarith
  then show "compute_forces (two_state 2) k0 mol2 el2 [0, 0] 0 =
     (if k0 = 0 then Inr (mol2\<lparr>f := [- 3, 7]\<rparr>, [2, 0])
      else if k0 = 1 then Inr (mol2\<lparr>f := [4, 0]\<rparr>, [2, 0])
      else Inl OutOfRange)"
  proof cases
    case 1
    then show ?thesis
      by (simp add: compute_forces_def two_state_def mol2_def el2_def zero_forces_def
          pair_step_def force_step_def for_loop_def upt2)
  next
    case 2
    then show ?thesis
      by (simp add: compute_forces_def two_state_def mol2_def el2_def zero_forces_def
          pair_step_def force_step_def for_loop_def upt2)
  next
    case 3
    then show ?thesis
      by (auto simp add: compute_forces_def two_state_def mol2_def)
  qed
qed

section \<open>Coordinates, velocities and the selector of Hamiltonian_Atomistic\<close>

text \<open>
  C5. \<open>set_q\<close> ends the process exactly when the size of the coordinate vector differs
  from \<open>nnucl\<close>; when the sizes agree it stores the coordinates and sets both
  \<open>status_dia\<close> and \<open>status_adi\<close> to 0.
\<close>

theorem set_q_fail_fast:
  "(set_q X q' h = Inl (Exit 0) \<longleftrightarrow> int (length q') \<noteq> Hamiltonian_Atomistic.nnucl h)
   \<and> (int (length q') = Hamiltonian_Atomistic.nnucl h \<longrightarrow>
        (\<exists>h'. set_q X q' h = Inr h' \<and> Hamiltonian_Atomistic.q h' = q'
              \<and> status_dia h' = 0 \<and> status_adi h' = 0))"
  by (simp add: set_q_def)

theorem set_q_fail_fast_witness:
  "int (length [1, 2 :: real]) \<noteq> Hamiltonian_Atomistic.nnucl (atomistic\<lparr>status_dia := 1, status_adi := 1\<rparr>)
   \<and> set_q X1 [1, 2] (atomistic\<lparr>status_dia := 1, status_adi := 1\<rparr>) = Inl (Exit 0)
   \<and> int (length [1, 2, 3 :: real]) = Hamiltonian_Atomistic.nnucl (atomistic\<lparr>status_dia := 1, status_adi := 1\<rparr>)
   \<and> (\<exists>h'. set_q X1 [1, 2, 3] (atomistic\<lparr>status_dia := 1, status_adi := 1\<rparr>) = Inr h'
          \<and> Hamiltonian_Atomistic.q h' = [1, 2, 3] \<and> status_dia h' = 0 \<and> status_adi h' = 0)"
  using set_q_fail_fast [of X1 "[1, 2]" "atomistic\<lparr>status_dia := 1, status_adi := 1\<rparr>"]
    set_q_fail_fast [of X1 "[1, 2, 3]" "atomistic\<lparr>status_dia := 1, status_adi := 1\<rparr>"]
  by (simp add: atomistic_def Hamiltonian_Atomistic_new_def)

text \<open>
  C9. \<open>set_v\<close> ends the process exactly when the size of the velocity vector differs from
  \<open>nnucl\<close>; when the sizes agree it stores the velocities and sets \<open>status_adi\<close> to 0,
  and leaves \<open>status_dia\<close>, \<open>ham_dia\<close>, \<open>d1ham_dia\<close> and \<open>d2ham_dia\<close> as they are.
\<close>

theorem set_v_frame:
  "(set_v X v' h = Inl (Exit 0) \<longleftrightarrow> int (length v') \<noteq> Hamiltonian_Atomistic.nnucl h)
   \<and> (int (length v') = Hamiltonian_Atomistic.nnucl h \<longrightarrow>
        (\<exists>h'. set_v X v' h = Inr h' \<and> v h' = v' \<and> status_adi h' = 0
              \<and> status_dia h' = status_dia h \<and> ham_dia h' = ham_dia h
              \<and> d1ham_dia h' = d1ham_dia h \<and> d2ham_dia h' = d2ham_dia h))"
  by (simp add: set_v_def)

theorem set_v_frame_witness:
  "int (length [1, 2 :: real]) \<noteq> Hamiltonian_Atomistic.nnucl (atomistic\<lparr>status_dia := 1, status_adi := 1\<rparr>)
   \<and> set_v X1 [1, 2] (atomistic\<lparr>status_dia := 1, status_adi := 1\<rparr>) = Inl (Exit 0)
   \<and> int (length [1, 2, 3 :: real]) = Hamiltonian_Atomistic.nnucl (atomistic\<lparr>status_dia := 1, status_adi := 1\<rparr>)
   \<and> (\<exists>h'. set_v X1 [1, 2, 3] (atomistic\<lparr>status_dia := 1, status_adi := 1\<rparr>) = Inr h'
          \<and> v h' = [1, 2, 3] \<and> status_adi h' = 0 \<and> status_dia h' = 1
          \<and> ham_dia h' = ham_dia atomistic \<and> d1ham_dia h' = d1ham_dia atomistic
          \<and> d2ham_dia h' = d2ham_dia atomistic)"
  using set_v_frame [of X1 "[1, 2]" "atomistic\<lparr>status_dia := 1, status_adi := 1\<rparr>"]
    set_v_frame [of X1 "[1, 2, 3]" "atomistic\<lparr>status_dia := 1, status_adi := 1\<rparr>"]
  by (simp add: atomistic_def Hamiltonian_Atomistic_new_def)

text \<open>
  C8. \<open>set_Hamiltonian_type\<close> ends the process for every selector other than "MM". For
  "MM", on an object with its vector \<open>ham_types\<close>, it returns with \<open>rep = 0\<close> and the flag
  \<open>ham_types[0]\<close> set; it allocates the MM Hamiltonian when the flag was 0 and leaves
  \<open>mm_ham\<close> as it is otherwise, so that a further call changes nothing.
\<close>

theorem set_Hamiltonian_type_MM_only:
  "(ham_type \<noteq> ''MM'' \<longrightarrow> set_Hamiltonian_type X ham_type h = Inl (Exit 0))
   \<and> (ham_types h \<noteq> [] \<longrightarrow>
        (\<exists>h'. set_Hamiltonian_type X ''MM'' h = Inr h' \<and> rep h' = 0
              \<and> ham_types h' ! 0 \<noteq> 0
              \<and> (ham_types h ! 0 = 0 \<longrightarrow> mm_ham h' = Some (new_listHamiltonian_MM X))
              \<and> (ham_types h ! 0 \<noteq> 0 \<longrightarrow> mm_ham h' = mm_ham h)
              \<and> set_Hamiltonian_type X ''MM'' h' = Inr h'))"
  by (auto simp: set_Hamiltonian_type_def Let_def)

theorem set_Hamiltonian_type_MM_only_witness:
  "''QM'' \<noteq> ''MM''
   \<and> set_Hamiltonian_type X1 ''QM'' atomistic = Inl (Exit 0)
   \<and> ham_types atomistic \<noteq> [] \<and> ham_types atomistic ! 0 = 0
   \<and> (\<exists>h'. set_Hamiltonian_type X1 ''MM'' atomistic = Inr h' \<and> rep h' = 0
          \<and> ham_types h' ! 0 \<noteq> 0
          \<and> mm_ham h' = Some (new_listHamiltonian_MM X1)
          \<and> set_Hamiltonian_type X1 ''MM'' h' = Inr h')
   \<and> ham_types atomistic_MM \<noteq> [] \<and> ham_types atomistic_MM ! 0 \<noteq> 0
   \<and> (\<exists>h'. set_Hamiltonian_type X1 ''MM'' atomistic_MM = Inr h'
          \<and> mm_ham h' = Some \<lparr>interactions = [pull]\<rparr>)"
proof -
  have a: "''QM'' \<noteq> ''MM''" by simp
  have b: "ham_types atomistic \<noteq> []" "ham_types atomistic ! 0 = 0"
    by (simp_all add: atomistic_def Hamiltonian_Atomistic_new_def)
  have c: "ham_types atomistic_MM \<noteq> []" "ham_types atomistic_MM ! 0 \<noteq> 0"
    "mm_ham atomistic_MM = Some \<lparr>interactions = [pull]\<rparr>"
    by (simp_all add: atomistic_MM_def)
  from a b c set_Hamiltonian_type_MM_only [of "''QM''" X1 atomistic]
    set_Hamiltonian_type_MM_only [of "''MM''" X1 atomistic_MM]
  show ?thesis
    by (simp del: list.simps) metis
qed

section \<open>The diabatic computation\<close>

lemma compute_diabatic_fresh: "status_dia h \<noteq> 0 \<Longrightarrow> compute_diabatic X h = Inr h"
  by (simp add: compute_diabatic_def)

lemma compute_diabatic_status: "compute_diabatic X h = Inr h' \<Longrightarrow> status_dia h' \<noteq> 0"
  by (auto simp: compute_diabatic_def Let_def split: if_splits option.splits prod.splits)

lemma compute_diabatic_frame:
  "compute_diabatic X h = Inr h' \<Longrightarrow>
     status_adi h' = status_adi h \<and> nelec h' = nelec h
     \<and> Hamiltonian_Atomistic.nnucl h' = Hamiltonian_Atomistic.nnucl h"
  by (auto simp: compute_diabatic_def Let_def split: if_splits option.splits prod.splits)

text \<open>The object of the examples, computed.\<close>

lemma upt3: "[0..<3] = [0, 1, 2]"
  by (simp add: upt_conv_Cons)

lemma upt9: "[0..<9] = [0, 1, 2, 3, 4, 5, 6, 7, 8]"
  by (simp add: upt_conv_Cons)

lemma run_diabatic: "compute_diabatic X1 atomistic_MM = Inr atomistic_dia"
  by (simp add: compute_diabatic_def atomistic_MM_def atomistic_def atomistic_dia_def
      Hamiltonian_Atomistic_new_def X1_def syst1_def pull_def calculate_all_def for_loop_def
      take_forces_def M0_in_range_def MATRIX_new_def set_M0_at_def set_M0_def upt3 upt9
      numeral_3_eq_3 eval_nat_numeral)

text \<open>
  C4. A call of \<open>compute_diabatic\<close> on an object whose diabatic result is up to date
  returns the object as it is: no interaction is calculated, the system and the matrices
  \<open>ham_dia\<close>, \<open>ham_adi\<close>, \<open>d1ham_dia\<close>, \<open>d1ham_adi\<close> and \<open>d2ham_dia\<close> are unchanged. The
  result of every call that returns is up to date, so a second call returns the result of
  the first.
\<close>

theorem compute_diabatic_idempotent:
  "(status_dia h \<noteq> 0 \<longrightarrow> compute_diabatic X h = Inr h)
   \<and> (\<forall>h'. compute_diabatic X h = Inr h' \<longrightarrow>
         status_dia h' \<noteq> 0 \<and> (\<forall>X'. compute_diabatic X' h' = Inr h'))"
  by (simp add: compute_diabatic_fresh compute_diabatic_status)

theorem compute_diabatic_idempotent_witness:
  "status_dia atomistic_dia \<noteq> 0
   \<and> compute_diabatic X1 atomistic_dia = Inr atomistic_dia
   \<and> compute_diabatic X1 atomistic_MM = Inr atomistic_dia
   \<and> compute_diabatic (X1\<lparr>zero_forces_and_torques := (\<lambda>s. s)\<rparr>) atomistic_dia = Inr atomistic_dia"
proof -
  have "status_dia atomistic_dia \<noteq> 0"
    by (simp add: atomistic_dia_def)
  with compute_diabatic_idempotent [of atomistic_dia X1]
    compute_diabatic_idempotent [of atomistic_MM X1] run_diabatic
  show ?thesis by blast
qed



lemma M0_ok_set_M0_at [simp]: "M0_ok (set_M0_at i a d) j = M0_ok d j"
  by (cases "j = nat i") (auto simp: M0_ok_def set_M0_at_def set_M0_def)








text \<open>The subscripts are in range for an object that the constructor made with at least
  one electronic state.\<close>

lemma new_M0_in_range:
  assumes "0 < ne" and "n \<le> nn"
  shows "M0_in_range (d1ham_dia (Hamiltonian_Atomistic_new ne nn q0 v0 s0)) n"
    and "M0_in_range (d1ham_adi (Hamiltonian_Atomistic_new ne nn q0 v0 s0)) n"
    and "M0_in_range (d2ham_dia (Hamiltonian_Atomistic_new ne nn q0 v0 s0)) (nn * nn)"
proof -
  from assms(1) have "0 < ne * ne" by simp
  then have ne: "replicate (nat (ne * ne)) (0::real) \<noteq> []" by simp
  show "M0_in_range (d1ham_dia (Hamiltonian_Atomistic_new ne nn q0 v0 s0)) n"
    "M0_in_range (d1ham_adi (Hamiltonian_Atomistic_new ne nn q0 v0 s0)) n"
    "M0_in_range (d2ham_dia (Hamiltonian_Atomistic_new ne nn q0 v0 s0)) (nn * nn)"
    using assms(2) ne
    by (auto simp: M0_in_range_def Hamiltonian_Atomistic_new_def MATRIX_new_def list_all_length)
qed

text \<open>An object as the constructor and the selector "MM" leave it, over a system whose
  atoms fit its nuclear degrees of freedom: the diabatic computation returns.\<close>

lemma compute_diabatic_returns:
  assumes "set_Hamiltonian_type X ''MM'' (Hamiltonian_Atomistic_new ne nn q0 v0 s0) = Inr h"
    and "0 < ne"
    and "calculate_all (interactions (new_listHamiltonian_MM X)) (zero_forces_and_torques X s0) = (res, s)"
    and "Number_of_atoms s \<le> int (length (Atoms s))"
    and "3 * Number_of_atoms s \<le> nn"
  shows "\<exists>h'. compute_diabatic X h = Inr h'"
proof -
  let ?h0 = "Hamiltonian_Atomistic_new ne nn q0 v0 s0"
  from assms(1) have h: "h = ?h0\<lparr>rep := 0, mm_ham := Some (new_listHamiltonian_MM X),
      ham_types := (ham_types ?h0)[0 := 1]\<rparr>"
    by (auto simp: set_Hamiltonian_type_def Let_def Hamiltonian_Atomistic_new_def split: if_splits)
  from assms(2) have "0 < ne * ne" by simp
  then have ne: "M (ham_dia ?h0) \<noteq> []" "M (ham_adi ?h0) \<noteq> []"
    by (simp_all add: Hamiltonian_Atomistic_new_def MATRIX_new_def)
  note rng = new_M0_in_range [OF assms(2) assms(5), of q0 v0 s0]
  have basics: "status_dia ?h0 = 0" "syst ?h0 = s0" "ham_types ?h0 = replicate 5 0"
    "Hamiltonian_Atomistic.nnucl ?h0 = nn"
    by (simp_all add: Hamiltonian_Atomistic_new_def)
  show ?thesis
    unfolding h compute_diabatic_def using assms(3,4) ne rng basics
    by (simp add: numeral_eq_Suc split: prod.splits)
qed



section \<open>The adiabatic computation\<close>


lemma compute_diabatic_lengths:
  assumes "compute_diabatic X h = Inr h'"
  shows "length (d1ham_dia h') = length (d1ham_dia h) \<and> length (d1ham_adi h') = length (d1ham_adi h)"
proof -
  have loop: "length (fst (for_loop n (take_forces s) (dia, adi))) = length dia
      \<and> length (snd (for_loop n (take_forces s) (dia, adi))) = length adi" for n s dia adi
  proof -
    let ?P = "\<lambda>(m::nat) (ab :: MATRIX list \<times> MATRIX list). length (fst ab) = length dia \<and> length (snd ab) = length adi"
    have "?P (nat n) (for_loop n (take_forces s) (dia, adi))"
    proof (rule for_loop_induct)
      show "?P 0 (dia, adi)" by simp
    next
      fix i ab
      assume "?P i ab"
      then show "?P (Suc i) (take_forces s (int i) ab)"
        by (cases ab) (simp add: take_forces_def Let_def set_M0_at_def)
    qed
    then show ?thesis by simp
  qed
  from assms show ?thesis
    using loop
    by (auto simp: compute_diabatic_def Let_def split: if_splits option.splits prod.splits)
      (metis fst_conv snd_conv)+
qed







text \<open>An object as the constructor and the selector "MM" leave it, over a system whose
  atoms fit its nuclear degrees of freedom: the adiabatic computation returns.\<close>

lemma compute_adiabatic_returns:
  assumes "set_Hamiltonian_type X ''MM'' (Hamiltonian_Atomistic_new ne nn q0 v0 s0) = Inr h"
    and "0 < ne"
    and "calculate_all (interactions (new_listHamiltonian_MM X)) (zero_forces_and_torques X s0) = (res, s)"
    and "Number_of_atoms s \<le> int (length (Atoms s))"
    and "3 * Number_of_atoms s \<le> nn"
  shows "\<exists>h2. compute_adiabatic X h = Inr h2 \<and> status_dia h2 = 1 \<and> status_adi h2 = 1"
proof -
  from compute_diabatic_returns [OF assms] obtain h1 where dia: "compute_diabatic X h = Inr h1"
    by blast
  let ?h0 = "Hamiltonian_Atomistic_new ne nn q0 v0 s0"
  from assms(1) have h: "length (d1ham_dia h) = nat nn" "length (d1ham_adi h) = nat nn"
    "Hamiltonian_Atomistic.nnucl h = nn" "status_adi h = 0" "status_dia h = 0"
    by (auto simp: set_Hamiltonian_type_def Let_def Hamiltonian_Atomistic_new_def split: if_splits)
  from dia h have one: "status_dia h1 = 1"
    by (auto simp: compute_diabatic_def Let_def split: if_splits option.splits prod.splits)
  from compute_diabatic_lengths [OF dia] compute_diabatic_frame [OF dia] h
  have len: "Hamiltonian_Atomistic.nnucl h1 \<le> int (length (d1ham_dia h1))"
    "Hamiltonian_Atomistic.nnucl h1 \<le> int (length (d1ham_adi h1))"
    and stale: "status_adi h1 = 0"
    by simp_all
  obtain E C where ec: "eigen X h1 = (E, C)"
    by (cases "eigen X h1")
  from dia len stale ec one show ?thesis
    by (simp add: compute_adiabatic_def)
qed

end
